theory Spec2Isabelle
  imports Main
begin

section \<open>JavaScript values\<close>

text \<open>
  The two platform modules are JavaScript. Their inputs are plain data (activity-stream
  jobs, decoded IRC events, XML stanzas), so a value is one of the JSON shapes plus
  \<open>undefined\<close>. Strings are \<^typ>\<open>string\<close>: code units below 256. Numbers are the
  integers a double holds exactly (magnitude at most \<open>2^53\<close>); a \<open>JNum\<close> beyond that
  range stands for no JavaScript number. An object is an association list, read with
  \<open>get\<close>; a key that is absent reads as \<open>undefined\<close>.
\<close>

datatype jsval =
    JUndefined
  | JNull
  | JBool bool
  | JNum int
  | JStr string
  | JArr "jsval list"
  | JObj "(string \<times> jsval) list"

text \<open>
  The exceptions the code can raise: a reference to an identifier no enclosing scope
  binds (it carries the identifier), a property read or call on a value that does not
  support it (it carries the property or method), and \<open>new Error(msg)\<close>.
\<close>

datatype js_error =
    ReferenceError string
  | TypeError string
  | PlainError string

fun typeof :: "jsval \<Rightarrow> string" where
  "typeof JUndefined = ''undefined''"
| "typeof JNull = ''object''"
| "typeof (JBool b) = ''boolean''"
| "typeof (JNum n) = ''number''"
| "typeof (JStr s) = ''string''"
| "typeof (JArr xs) = ''object''"
| "typeof (JObj kvs) = ''object''"

text \<open>Truthiness, as \<open>if (x)\<close>, \<open>!x\<close> and \<open>x || y\<close> read it.\<close>

fun truthy :: "jsval \<Rightarrow> bool" where
  "truthy JUndefined = False"
| "truthy JNull = False"
| "truthy (JBool b) = b"
| "truthy (JNum n) = (n \<noteq> 0)"
| "truthy (JStr s) = (s \<noteq> [])"
| "truthy (JArr xs) = True"
| "truthy (JObj kvs) = True"

definition get :: "(string \<times> jsval) list \<Rightarrow> string \<Rightarrow> jsval" where
  "get obj k = (case map_of obj k of None \<Rightarrow> JUndefined | Some v \<Rightarrow> v)"

text \<open>
  \<open>v[k]\<close> on an arbitrary value: reading a property of \<open>undefined\<close> or \<open>null\<close>
  throws; a primitive or an array has none of the keys this program reads.
\<close>

fun get_member :: "jsval \<Rightarrow> string \<Rightarrow> js_error + jsval" where
  "get_member JUndefined k = Inl (TypeError k)"
| "get_member JNull k = Inl (TypeError k)"
| "get_member (JObj kvs) k = Inr (get kvs k)"
| "get_member v k = Inr JUndefined"

subsection \<open>String conversion and concatenation\<close>

fun digits :: "nat \<Rightarrow> string" where
  "digits n =
     (if n < 10 then [''0123456789'' ! n]
      else digits (n div 10) @ [''0123456789'' ! (n mod 10)])"

definition show_int :: "int \<Rightarrow> string" where
  "show_int i = (if i < 0 then ''-'' @ digits (nat (- i)) else digits (nat i))"

fun join_comma :: "string list \<Rightarrow> string" where
  "join_comma [] = []"
| "join_comma [s] = s"
| "join_comma (s # t # ss) = s @ '','' @ join_comma (t # ss)"

text \<open>
  \<open>'' + v\<close>: what string concatenation makes of a value. An array joins its elements
  with commas, \<open>null\<close> and \<open>undefined\<close> elements as the empty string. A number in the
  modelled range prints all its digits (JavaScript turns to exponent form only from
  \<open>10^21\<close> on).
\<close>

fun to_string :: "jsval \<Rightarrow> string" where
  "to_string JUndefined = ''undefined''"
| "to_string JNull = ''null''"
| "to_string (JBool b) = (if b then ''true'' else ''false'')"
| "to_string (JNum n) = show_int n"
| "to_string (JStr s) = s"
| "to_string (JArr xs) =
     join_comma (map (\<lambda>x. if x = JUndefined then [] else if x = JNull then [] else to_string x) xs)"
| "to_string (JObj kvs) = ''[object Object]''"

subsection \<open>\<open>indexOf\<close> and the trimming regular expression\<close>

fun indexOf_from :: "string \<Rightarrow> string \<Rightarrow> int \<Rightarrow> int" where
  "indexOf_from pat [] i = (if pat = [] then i else - 1)"
| "indexOf_from pat (c # cs) i =
     (if take (length pat) (c # cs) = pat then i else indexOf_from pat cs (i + 1))"

text \<open>\<open>s.indexOf(pat)\<close> on a string: the first position where \<open>pat\<close> starts, or -1.\<close>

definition str_indexOf :: "string \<Rightarrow> string \<Rightarrow> int" where
  "str_indexOf s pat = indexOf_from pat s 0"

text \<open>\<open>xs.indexOf(x)\<close> on an array of strings (\<open>this._channels\<close>): strict equality.\<close>

fun list_indexOf_from :: "'a list \<Rightarrow> 'a \<Rightarrow> int \<Rightarrow> int" where
  "list_indexOf_from [] x i = - 1"
| "list_indexOf_from (y # ys) x i = (if y = x then i else list_indexOf_from ys x (i + 1))"

definition list_indexOf :: "'a list \<Rightarrow> 'a \<Rightarrow> int" where
  "list_indexOf xs x = list_indexOf_from xs x 0"

text \<open>
  \<open>v.indexOf(pat)\<close> where \<open>v\<close> is any value and \<open>pat\<close> a string literal. A string
  searches for the substring, an array for an element that is that string. On
  \<open>undefined\<close> and \<open>null\<close> the property read throws; a number, a boolean and a plain
  object have no callable \<open>indexOf\<close>, so the call throws.
\<close>

fun call_indexOf :: "jsval \<Rightarrow> string \<Rightarrow> js_error + int" where
  "call_indexOf (JStr s) pat = Inr (str_indexOf s pat)"
| "call_indexOf (JArr xs) pat = Inr (list_indexOf xs (JStr pat))"
| "call_indexOf v pat = Inl (TypeError ''indexOf'')"

text \<open>
  The class \<open>\s\<close> of a regular expression, within the code units a \<^typ>\<open>string\<close>
  holds: TAB, LF, VT, FF, CR, SPACE and NBSP.
\<close>

definition is_space :: "char \<Rightarrow> bool" where
  "is_space c = (c \<in> set [CHR 0x09, CHR 0x0A, CHR 0x0B, CHR 0x0C, CHR 0x0D, CHR 0x20, CHR 0xA0])"

text \<open>\<open>s.replace(/^\s+|\s+$/g, "")\<close>: the leading and the trailing run of \<open>\s\<close> removed.\<close>

definition trim :: "string \<Rightarrow> string" where
  "trim s = rev (dropWhile is_space (rev (dropWhile is_space s)))"

text \<open>
  \<open>v.replace(/^\s+|\s+$/g, "")\<close> where \<open>v\<close> is any value: only a string has the method.
  On \<open>undefined\<close> and \<open>null\<close> the property read throws, on any other value the call
  does.
\<close>

fun call_replace :: "jsval \<Rightarrow> js_error + string" where
  "call_replace (JStr s) = Inr (trim s)"
| "call_replace v = Inl (TypeError ''replace'')"

section \<open>Computations with effects and exceptions\<close>

text \<open>
  A function body is a state transformer that ends normally with a value (\<open>Inr\<close>) or
  with a thrown exception (\<open>Inl\<close>); the state it reached is kept either way, since the
  effects made before a \<open>throw\<close> stay made.
\<close>

type_synonym ('s, 'a) comp = "'s \<Rightarrow> 's \<times> (js_error + 'a)"

definition js_return :: "'a \<Rightarrow> ('s, 'a) comp" where
  "js_return x s = (s, Inr x)"

definition js_throw :: "js_error \<Rightarrow> ('s, 'a) comp" where
  "js_throw e s = (s, Inl e)"

definition js_lift :: "js_error + 'a \<Rightarrow> ('s, 'a) comp" where
  "js_lift r s = (s, r)"

definition js_bind :: "('s, 'a) comp \<Rightarrow> ('a \<Rightarrow> ('s, 'b) comp) \<Rightarrow> ('s, 'b) comp" where
  "js_bind m f s = (case m s of (s', Inl e) \<Rightarrow> (s', Inl e) | (s', Inr x) \<Rightarrow> f x s')"

text \<open>A statement list: each statement in turn, up to the first that throws.\<close>

fun js_block :: "('s, unit) comp list \<Rightarrow> ('s, unit) comp" where
  "js_block [] = js_return ()"
| "js_block (m # ms) = js_bind m (\<lambda>_. js_block ms)"

text \<open>\<open>try { body } catch (e) { handler(e) }\<close>.\<close>

definition js_try :: "('s, 'a) comp \<Rightarrow> (js_error \<Rightarrow> ('s, 'a) comp) \<Rightarrow> ('s, 'a) comp" where
  "js_try body handler s =
     (case body s of (s', Inl e) \<Rightarrow> handler e s' | (s', Inr x) \<Rightarrow> (s', Inr x))"

text \<open>
  Evaluating an identifier that is bound nowhere: in \<open>index.js\<close> these are \<open>err\<close> (in
  \<open>join\<close>), \<open>job\<close> (in \<open>_joined\<close> and \<open>_left\<close>) and \<open>promise\<close> (in \<open>_getClient\<close>); in
  \<open>incoming-handlers.js\<close> it is \<open>state\<close>.
\<close>

definition free_variable :: "string \<Rightarrow> ('s, jsval) comp" where
  "free_variable name = js_throw (ReferenceError name)"

text \<open>
  Calling a method the receiver does not have: \<open>self._leave\<close> on the IRC prototype
  (which defines \<open>_left\<close>), \<open>this.roomAttendance\<close> on \<open>IncomingHandlers\<close>,
  \<open>this.session.connection.disconnect\<close> on the guarded session.
\<close>

definition missing_method :: "string \<Rightarrow> ('s, 'a) comp" where
  "missing_method name = js_throw (TypeError name)"

subsection \<open>Promises\<close>

text \<open>
  The value a job's completion callback or a rejection handler receives: a plain value,
  or an exception object that was caught.
\<close>

datatype reason = Value jsval | Exception js_error

datatype 'a promise = Resolved 'a | Rejected reason | Pending

text \<open>
  \<open>p.then(f, g)\<close>: a rejection of \<open>p\<close> goes to \<open>g\<close>; what \<open>f\<close> throws rejects the
  derived promise, which nobody handles, so it reaches no callback. It is returned as
  \<open>Inl\<close>, the unhandled rejection.
\<close>

fun then_or :: "'a promise \<Rightarrow> ('a \<Rightarrow> ('s, unit) comp) \<Rightarrow> (reason \<Rightarrow> ('s, unit) comp)
    \<Rightarrow> ('s, unit) comp" where
  "then_or (Resolved v) f g = f v"
| "then_or (Rejected r) f g = g r"
| "then_or Pending f g = js_return ()"

text \<open>\<open>p.then(f).catch(g)\<close>: \<open>g\<close> also receives what \<open>f\<close> throws.\<close>

fun then_catch :: "'a promise \<Rightarrow> ('a \<Rightarrow> ('s, unit) comp) \<Rightarrow> (reason \<Rightarrow> ('s, unit) comp)
    \<Rightarrow> ('s, unit) comp" where
  "then_catch (Resolved v) f g = js_try (f v) (\<lambda>e. g (Exception e))"
| "then_catch (Rejected r) f g = g r"
| "then_catch Pending f g = js_return ()"

section \<open>The IRC platform: \<open>sockethub-platform-irc/index.js\<close>\<close>

subsection \<open>Data\<close>

text \<open>
  The credentials object of the schema (\<open>object.nick\<close>, \<open>object.server\<close> required;
  \<open>password\<close>, \<open>port\<close>, \<open>secure\<close> optional) with the \<open>actor\<close> it was stored with.
  \<open>JSON.parse(JSON.stringify(c))\<close> copies such a value; a record is its own copy.
\<close>

record credentials =
  cred_actor_id :: string
  cred_actor_displayName :: "string option"
  cred_actor_name :: "string option"
  cred_nick :: string
  cred_server :: string
  cred_password :: "string option"
  cred_port :: "int option"
  cred_secure :: "bool option"

text \<open>
  A client object of the connection manager: its \<open>key\<close>, \<open>id\<close> and \<open>credentials\<close>,
  and the live connection \<open>client.connection.irc\<close>, an opaque handle.
\<close>

record client =
  client_key :: string
  client_id :: string
  client_credentials :: credentials
  client_handle :: nat

text \<open>
  A job, with the fields the verbs read. \<open>actor.address\<close>, \<open>object.objectType\<close> and
  \<open>object.content\<close> may be absent (\<open>object: {}\<close> in the examples of \<open>join\<close> and
  \<open>leave\<close>), so they are values; the others are strings, as in every documented
  example.
\<close>

record job =
  actor_id :: string
  actor_displayName :: string
  actor_address :: jsval
  target_id :: string
  target_displayName :: string
  object_objectType :: jsval
  object_content :: jsval
  object_topic :: string

text \<open>
  What the adapter does to its collaborators, in the order it does it:
  \<open>session.debug(msg)\<close>, \<open>client.connection.irc.raw(args)\<close> on a connection handle,
  the job's completion callback \<open>done()\<close> or \<open>done(err)\<close>, \<open>session.send(msg)\<close>,
  \<open>session.setConfig(kind, key, value)\<close>, \<open>session.connection.move(oldKey, oldCreds,
  newKey, newCreds)\<close> and \<open>session.connection.create({id: ...}, cb)\<close>. Each call is taken
  to return normally. The module's own \<open>debug\<close> logger and \<open>console.log\<close> are not
  recorded, nor are the extra arguments of \<open>session.debug\<close>.
\<close>

datatype effect =
    SessionDebug string
  | IrcRaw nat "string list"
  | Done "reason option"
  | SessionSend jsval
  | SetConfig string string credentials
  | PoolMove string credentials string credentials
  | PoolCreate string

text \<open>An adapter instance: \<open>this._channels\<close>, and the calls it has made so far.\<close>

record irc =
  channels :: "string list"
  calls :: "effect list"

text \<open>The constructor \<open>IRC(session)\<close>: \<open>this._channels = []\<close>.\<close>

definition IRC_new :: irc where
  "IRC_new = \<lparr>channels = [], calls = []\<rparr>"

text \<open>
  What the collaborators answer during one job: the \<open>(err, creds)\<close> with which
  \<open>session.store.get\<close> invokes its callback, the result of \<open>session.connection.get\<close>,
  and the \<open>(err, client)\<close> passed to the completion callback of
  \<open>session.connection.create\<close>. \<open>None\<close> for a callback is: never invoked.
\<close>

record env =
  store_reply :: "(jsval \<times> credentials) option"
  pool_get :: "client option"
  create_reply :: "(jsval \<times> client option) option"

subsection \<open>Collaborator calls\<close>

definition emit :: "effect \<Rightarrow> (irc, unit) comp" where
  "emit e s = (s\<lparr>calls := calls s @ [e]\<rparr>, Inr ())"

definition session_debug :: "string \<Rightarrow> (irc, unit) comp" where
  "session_debug msg = emit (SessionDebug msg)"

definition irc_raw :: "client \<Rightarrow> string list \<Rightarrow> (irc, unit) comp" where
  "irc_raw c args = emit (IrcRaw (client_handle c) args)"

definition done_cb :: "reason option \<Rightarrow> (irc, unit) comp" where
  "done_cb r = emit (Done r)"

definition session_send :: "jsval \<Rightarrow> (irc, unit) comp" where
  "session_send msg = emit (SessionSend msg)"

subsection \<open>Membership state: \<open>_isJoined\<close>, \<open>_joined\<close>, \<open>_left\<close>\<close>

text \<open>The source's names begin with an underscore, which a constant's name cannot.\<close>

definition isJoined :: "irc \<Rightarrow> string \<Rightarrow> bool" where
  "isJoined s channel =
     (if str_indexOf channel ''#'' = 0 then
        (if list_indexOf (channels s) channel \<ge> 0 then True else False)
      else True)"

text \<open>
  \<open>_joined(channel)\<close> tests \<open>this._channels.indexOf(job.target.displayName) < 0\<close>, and
  \<open>job\<close> is not a variable of that function.
\<close>

definition joined :: "string \<Rightarrow> (irc, unit) comp" where
  "joined channel =
     js_bind (free_variable ''job'') (\<lambda>job.
     js_bind (js_lift (get_member job ''target'')) (\<lambda>target.
     js_bind (js_lift (get_member target ''displayName'')) (\<lambda>name s.
       if list_indexOf (map JStr (channels s)) name < 0
       then (s\<lparr>channels := channels s @ [channel]\<rparr>, Inr ())
       else (s, Inr ()))))"

definition left :: "string \<Rightarrow> (irc, unit) comp" where
  "left channel =
     js_bind (free_variable ''job'') (\<lambda>job.
     js_bind (js_lift (get_member job ''target'')) (\<lambda>target.
     js_bind (js_lift (get_member target ''displayName'')) (\<lambda>name s.
       let index = list_indexOf (map JStr (channels s)) name in
       if index \<ge> 0
       then (s\<lparr>channels := take (nat index) (channels s) @ drop (nat index + 1) (channels s)\<rparr>,
             Inr ())
       else (s, Inr ()))))"

subsection \<open>Resolving the connection: \<open>_createClient\<close>, \<open>_getClient\<close>\<close>

text \<open>
  \<open>_createClient\<close> hands the connection manager the \<open>connect\<close> routine and the
  listeners, and settles its promise from the manager's callback: \<open>err\<close> rejects, a
  missing client rejects with a message, a client resolves.
\<close>

definition createClient :: "string \<Rightarrow> credentials \<Rightarrow> env \<Rightarrow> (irc, client promise) comp" where
  "createClient key creds e =
     js_bind (session_debug (''creating new client connection: '' @ cred_server creds)) (\<lambda>_.
     js_bind (emit (PoolCreate (cred_actor_id creds))) (\<lambda>_.
     js_return
       (case create_reply e of
          None \<Rightarrow> Pending
        | Some (err, c) \<Rightarrow>
            if truthy err then Rejected (Value err)
            else (case c of
                    None \<Rightarrow> Rejected (Value (JStr ''didnt receive a client object.''))
                  | Some cl \<Rightarrow> Resolved cl))))"

text \<open>
  \<open>_getClient(job, create)\<close>; \<open>create\<close> defaults to \<open>true\<close> unless a boolean is passed.
  On a store error the callback evaluates \<open>promise.reject(err)\<close>, and \<open>promise\<close> is
  unbound (the deferred is \<open>pending\<close>): the exception leaves through the store, and the
  promise is settled by nobody.
\<close>

definition getClient :: "job \<Rightarrow> bool option \<Rightarrow> env \<Rightarrow> (irc, client promise) comp" where
  "getClient job create e =
     (let create = (case create of Some b \<Rightarrow> b | None \<Rightarrow> True) in
      case store_reply e of
        None \<Rightarrow> js_return Pending
      | Some (err, creds) \<Rightarrow>
          if truthy err then js_bind (free_variable ''promise'') (\<lambda>p. js_return Pending)
          else
            js_bind (session_debug (''got config for '' @ actor_id job)) (\<lambda>_.
              case pool_get e of
                None \<Rightarrow>
                  if create then createClient (actor_id job) creds e
                  else js_return (Rejected (Value JUndefined))
              | Some c \<Rightarrow>
                  js_bind (session_debug (''returning existing client '' @ client_id c)) (\<lambda>_.
                  js_return (Resolved c))))"

subsection \<open>The verbs\<close>

text \<open>
  \<open>join\<close>: the success handler begins with \<open>if (err) { return done(err); }\<close>, and its
  only parameter is \<open>client\<close>.
\<close>

definition join_resolved :: "job \<Rightarrow> client \<Rightarrow> (irc, unit) comp" where
  "join_resolved job c =
     js_bind (free_variable ''err'') (\<lambda>err.
       if truthy err then done_cb (Some (Value err))
       else js_block
         [session_debug (''got client for '' @ actor_id job),
          session_debug (''join: '' @ actor_displayName job @ '' -> '' @ target_displayName job),
          irc_raw c [''JOIN'', target_displayName job],
          joined (target_displayName job),
          done_cb None])"

definition join :: "job \<Rightarrow> env \<Rightarrow> (irc, unit) comp" where
  "join job e =
     js_bind (session_debug ''join() called'') (\<lambda>_.
     js_bind (getClient job None e) (\<lambda>p.
     then_or p (join_resolved job) (\<lambda>r. done_cb (Some r))))"

text \<open>\<open>leave\<close> calls \<open>self._leave\<close>; the prototype defines \<open>_left\<close>.\<close>

definition leave_resolved :: "job \<Rightarrow> client \<Rightarrow> (irc, unit) comp" where
  "leave_resolved job c =
     js_block
       [session_debug (''leave: '' @ actor_displayName job @ '' -< '' @ target_displayName job),
        irc_raw c [''PART'', target_displayName job],
        missing_method ''_leave'',
        done_cb None]"

definition leave :: "job \<Rightarrow> env \<Rightarrow> (irc, unit) comp" where
  "leave job e =
     js_bind (session_debug ''leave() called'') (\<lambda>_.
     js_bind (getClient job None e) (\<lambda>p.
     then_or p (leave_resolved job) (\<lambda>r. done_cb (Some r))))"

definition not_joined_message :: string where
  "not_joined_message = ''cannot send message to a channel of which you've not first `join`ed.''"

definition send_resolved :: "job \<Rightarrow> client \<Rightarrow> (irc, unit) comp" where
  "send_resolved job c =
     js_bind (session_debug ''send(): got client object'') (\<lambda>_ s.
       if isJoined s (target_displayName job) then
         js_bind (js_lift (call_replace (object_content job))) (\<lambda>msg.
           js_block
             [session_debug (''irc.say: '' @ target_displayName job @ '', ['' @ msg @ '']''),
              irc_raw c [''PRIVMSG'', target_displayName job, msg],
              done_cb None]) s
       else done_cb (Some (Value (JStr not_joined_message))) s)"

definition send :: "job \<Rightarrow> env \<Rightarrow> (irc, unit) comp" where
  "send job e =
     js_bind (session_debug (''send() called for '' @ actor_id job @ '' target: '' @ target_id job))
       (\<lambda>_.
     js_bind (getClient job None e) (\<lambda>p.
     then_catch p (send_resolved job) (\<lambda>r. done_cb (Some r))))"

text \<open>
  \<open>update\<close>. The new \<open>actor.name\<close> is
  \<open>job.target.displayName || client.credentials.actor.name || ''\<close>.
\<close>

definition renamed_credentials :: "job \<Rightarrow> client \<Rightarrow> credentials" where
  "renamed_credentials job c =
     (client_credentials c)
       \<lparr>cred_actor_displayName := Some (target_displayName job),
        cred_actor_name :=
          Some (if target_displayName job \<noteq> [] then target_displayName job
                else (case cred_actor_name (client_credentials c) of
                        Some n \<Rightarrow> (if n \<noteq> [] then n else [])
                      | None \<Rightarrow> [])),
        cred_nick := target_displayName job\<rparr>"

definition update_resolved :: "job \<Rightarrow> client \<Rightarrow> (irc, unit) comp" where
  "update_resolved job c =
     js_bind (session_debug ''update(): got client object'') (\<lambda>_.
     js_bind
       (if object_objectType job = JStr ''address'' then
          (let oldCreds = client_credentials c;
               newCreds = renamed_credentials job c in
           js_block
             [session_debug (''changing nick from '' @ actor_displayName job @ '' to ''
                @ target_displayName job),
              irc_raw c [''NICK'', target_displayName job],
              emit (SetConfig ''credentials'' (target_displayName job) newCreds),
              emit (PoolMove (client_key c) oldCreds
                (target_displayName job @ ''@'' @ cred_server newCreds) newCreds)])
        else if object_objectType job = JStr ''topic'' then
          js_block
            [session_debug (''changing topic in channel '' @ target_displayName job),
             irc_raw c [''topic'', target_displayName job, object_topic job]]
        else js_return ())
       (\<lambda>_. done_cb None))"

definition update :: "job \<Rightarrow> env \<Rightarrow> (irc, unit) comp" where
  "update job e =
     js_bind (session_debug (''update() called for '' @ actor_displayName job)) (\<lambda>_.
     js_bind (getClient job None e) (\<lambda>p.
     then_or p (update_resolved job) (\<lambda>r. done_cb (Some r))))"

definition observe_resolved :: "job \<Rightarrow> client \<Rightarrow> (irc, unit) comp" where
  "observe_resolved job c =
     js_bind (session_debug ''observe(): got client object'') (\<lambda>_.
       if object_objectType job = JStr ''attendance'' then
         js_block
           [session_debug (''objserve() - sending NAMES for '' @ target_displayName job),
            irc_raw c [''NAMES'', target_displayName job],
            done_cb None]
       else
         done_cb (Some (Value (JStr (''unknown objectType '' @ [CHR 0x27]
           @ to_string (object_objectType job) @ [CHR 0x27])))))"

definition observe :: "job \<Rightarrow> env \<Rightarrow> (irc, unit) comp" where
  "observe job e =
     js_bind (session_debug (''observe() called for '' @ to_string (actor_address job))) (\<lambda>_.
     js_bind (getClient job None e) (\<lambda>p.
     then_or p (observe_resolved job) (\<lambda>r. done_cb (Some r))))"

definition cleanup :: "job \<Rightarrow> (irc, unit) comp" where
  "cleanup job = done_cb None"

subsection \<open>The event listener \<open>listeners['*']\<close>\<close>

text \<open>
  \<open>object.raw.indexOf(pat) >= 0\<close>. It is evaluated only after
  \<open>typeof object.channel === 'string'\<close> has held (\<open>&&\<close> short-circuits).
\<close>

definition raw_has :: "(string \<times> jsval) list \<Rightarrow> string \<Rightarrow> js_error + bool" where
  "raw_has object pat =
     (case call_indexOf (get object ''raw'') pat of Inl e \<Rightarrow> Inl e | Inr i \<Rightarrow> Inr (i \<ge> 0))"

definition address :: "jsval \<Rightarrow> jsval" where
  "address v = JObj [(''address'', v)]"

definition as_message :: "string \<Rightarrow> jsval \<Rightarrow> jsval \<Rightarrow> (string \<times> jsval) list \<Rightarrow> jsval" where
  "as_message verb actor target obj =
     JObj [(''verb'', JStr verb), (''actor'', address actor), (''target'', JArr [address target]),
           (''object'', JObj obj)]"

definition on_names :: "(string \<times> jsval) list \<Rightarrow> (irc, unit) comp" where
  "on_names object =
     js_block
       [session_debug (''received user list: '' @ to_string (get object ''channel'')),
        session_send (as_message ''observe'' (get object ''channel'') (get object ''channel'')
          [(''objectType'', JStr ''attendance''), (''members'', get object ''names'')])]"

definition on_topic :: "(string \<times> jsval) list \<Rightarrow> (irc, unit) comp" where
  "on_topic object =
     js_block
       [session_debug (''received topic change list: '' @ to_string (get object ''channel'')
          @ '':'' @ to_string (get object ''topicBy'') @ '': '' @ to_string (get object ''topic'')),
        session_send (as_message ''update'' (get object ''topicBy'') (get object ''channel'')
          [(''objectType'', JStr ''topic''), (''topic'', get object ''topic'')])]"

definition on_nick :: "(string \<times> jsval) list \<Rightarrow> (irc, unit) comp" where
  "on_nick object =
     js_block
       [session_debug (''received nick change '' @ to_string (get object ''nickname'')
          @ '' -> '' @ to_string (get object ''newnick'')),
        session_send (as_message ''update'' (get object ''nickname'') (get object ''newnick'')
          [(''objectType'', JStr ''address'')])]"

definition on_join :: "(string \<times> jsval) list \<Rightarrow> (irc, unit) comp" where
  "on_join object =
     js_bind (session_debug (''received join: '' @ to_string (get object ''nickname'')
        @ '' -> '' @ to_string (get object ''channel''))) (\<lambda>_.
       if \<not> truthy (get object ''nickname'') then
         session_debug ''skipping join message with undefined nickname''
       else
         session_send (as_message ''join'' (get object ''nickname'') (get object ''channel'') []))"

definition on_message :: "(string \<times> jsval) list \<Rightarrow> (irc, unit) comp" where
  "on_message object =
     (if \<not> truthy (get object ''nickname'') then session_debug ''received UNKNOWN: ''
      else
        js_block
          [session_debug (''received message: '' @ to_string (get object ''nickname'')
             @ '' -> '' @ to_string (get object ''target'')),
           session_send (as_message ''send'' (get object ''nickname'') (get object ''target'')
             [(''text'', get object ''message'')])])"

definition on_quit :: "(string \<times> jsval) list \<Rightarrow> (irc, unit) comp" where
  "on_quit object =
     js_block
       [session_debug (''received quit: '' @ to_string (get object ''nickname'')
          @ '' -> '' @ to_string (get object ''target'')),
        session_send (as_message ''leave'' (get object ''nickname'') (JStr [])
          [(''text'', JStr ''user has quit'')])]"

definition on_part :: "(string \<times> jsval) list \<Rightarrow> (irc, unit) comp" where
  "on_part object =
     js_block
       [session_debug (''received leave: '' @ to_string (get object ''nickname'')
          @ '' -> '' @ to_string (get object ''target'')),
        session_send (as_message ''leave'' (get object ''nickname'') (get object ''target'')
          [(''text'', JStr ''user has left the channel'')])]"

text \<open>
  The listener itself: the chain of \<open>if\<close> / \<open>else if\<close> of the source, test by test, in
  the source's order. The bodies of the branches are the functions above.
\<close>

definition listener :: "(string \<times> jsval) list \<Rightarrow> (irc, unit) comp" where
  "listener object =
     (if typeof (get object ''names'') = ''object'' then on_names object
      else if typeof (get object ''channel'') = ''string''
              \<and> typeof (get object ''who'') = ''object'' then js_return ()
      else if typeof (get object ''topic'') = ''string''
              \<and> typeof (get object ''topicBy'') = ''string'' then on_topic object
      else if typeof (get object ''newnick'') = ''string'' then on_nick object
      else
        js_bind (if typeof (get object ''channel'') = ''string''
                 then js_lift (raw_has object '' JOIN '') else js_return False) (\<lambda>is_join.
        if is_join then on_join object
        else if typeof (get object ''target'') = ''string''
                \<and> typeof (get object ''message'') = ''string'' then on_message object
        else if typeof (get object ''motd'') = ''object'' then js_return ()
        else if typeof (get object ''mode'') = ''string'' then js_return ()
        else if typeof (get object ''nickname'') = ''string''
                \<and> typeof (get object ''target'') = ''undefined'' then on_quit object
        else
          js_bind (if typeof (get object ''channel'') = ''string''
                   then js_lift (raw_has object '' PART '') else js_return False) (\<lambda>is_part.
          if is_part then on_part object else js_return ())))"

subsection \<open>Classification as an ordered list of shapes\<close>

text \<open>
  A shape is a test on the event that may throw; a rule pairs a shape with what is done
  for an event of that shape. \<open>first_match\<close> tries the rules in the order of the list:
  the first shape that holds decides, and no later shape is tested.
\<close>

type_synonym shape = "(string \<times> jsval) list \<Rightarrow> js_error + bool"

fun first_match :: "(shape \<times> ((string \<times> jsval) list \<Rightarrow> (irc, unit) comp)) list
    \<Rightarrow> (string \<times> jsval) list \<Rightarrow> (irc, unit) comp" where
  "first_match [] object = js_return ()"
| "first_match ((test, action) # rules) object =
     js_bind (js_lift (test object)) (\<lambda>hit.
       if hit then action object else first_match rules object)"

definition roster_shape :: shape where
  "roster_shape object = Inr (typeof (get object ''names'') = ''object'')"

definition who_shape :: shape where
  "who_shape object =
     Inr (typeof (get object ''channel'') = ''string'' \<and> typeof (get object ''who'') = ''object'')"

definition topic_shape :: shape where
  "topic_shape object =
     Inr (typeof (get object ''topic'') = ''string'' \<and> typeof (get object ''topicBy'') = ''string'')"

definition rename_shape :: shape where
  "rename_shape object = Inr (typeof (get object ''newnick'') = ''string'')"

definition join_shape :: shape where
  "join_shape object =
     (if typeof (get object ''channel'') = ''string'' then raw_has object '' JOIN '' else Inr False)"

definition message_shape :: shape where
  "message_shape object =
     Inr (typeof (get object ''target'') = ''string'' \<and> typeof (get object ''message'') = ''string'')"

definition motd_shape :: shape where
  "motd_shape object = Inr (typeof (get object ''motd'') = ''object'')"

definition mode_shape :: shape where
  "mode_shape object = Inr (typeof (get object ''mode'') = ''string'')"

definition quit_shape :: shape where
  "quit_shape object =
     Inr (typeof (get object ''nickname'') = ''string''
          \<and> typeof (get object ''target'') = ''undefined'')"

definition part_shape :: shape where
  "part_shape object =
     (if typeof (get object ''channel'') = ''string'' then raw_has object '' PART '' else Inr False)"

definition ignore :: "(string \<times> jsval) list \<Rightarrow> (irc, unit) comp" where
  "ignore object = js_return ()"

text \<open>The order in which \<open>index.js\<close> tests the shapes.\<close>

definition code_order :: "(shape \<times> ((string \<times> jsval) list \<Rightarrow> (irc, unit) comp)) list" where
  "code_order =
     [(roster_shape, on_names), (who_shape, ignore), (topic_shape, on_topic),
      (rename_shape, on_nick), (join_shape, on_join), (message_shape, on_message),
      (motd_shape, ignore), (mode_shape, ignore), (quit_shape, on_quit), (part_shape, on_part)]"

text \<open>
  The order of section 4.3 of the specification, in its words: roster snapshot, topic
  change, identity rename, join, direct/room message, disconnect/quit, part, then the
  known-ignorable payloads (MOTD, mode change), then silent drop. The shapes and the
  actions are those of the code; only the order is the specification's.
\<close>

definition spec_order :: "(shape \<times> ((string \<times> jsval) list \<Rightarrow> (irc, unit) comp)) list" where
  "spec_order =
     [(roster_shape, on_names), (topic_shape, on_topic), (rename_shape, on_nick),
      (join_shape, on_join), (message_shape, on_message), (quit_shape, on_quit),
      (part_shape, on_part), (motd_shape, ignore), (mode_shape, ignore)]"

definition classify_spec_order :: "(string \<times> jsval) list \<Rightarrow> (irc, unit) comp" where
  "classify_spec_order = first_match spec_order"

subsection \<open>Observations on a run\<close>

text \<open>What one operation added to the calls made so far.\<close>

definition new_calls :: "(irc, 'a) comp \<Rightarrow> irc \<Rightarrow> effect list" where
  "new_calls m s = drop (length (calls s)) (calls (fst (m s)))"

fun done_args :: "effect list \<Rightarrow> reason option list" where
  "done_args [] = []"
| "done_args (Done r # es) = r # done_args es"
| "done_args (e # es) = done_args es"

fun raw_commands :: "effect list \<Rightarrow> (nat \<times> string list) list" where
  "raw_commands [] = []"
| "raw_commands (IrcRaw h args # es) = (h, args) # raw_commands es"
| "raw_commands (e # es) = raw_commands es"

fun sent_messages :: "effect list \<Rightarrow> jsval list" where
  "sent_messages [] = []"
| "sent_messages (SessionSend m # es) = m # sent_messages es"
| "sent_messages (e # es) = sent_messages es"

fun stored_credentials :: "effect list \<Rightarrow> (string \<times> string \<times> credentials) list" where
  "stored_credentials [] = []"
| "stored_credentials (SetConfig kind key v # es) = (kind, key, v) # stored_credentials es"
| "stored_credentials (e # es) = stored_credentials es"

fun pool_moves :: "effect list \<Rightarrow> (string \<times> credentials \<times> string \<times> credentials) list" where
  "pool_moves [] = []"
| "pool_moves (PoolMove k c k' c' # es) = (k, c, k', c') # pool_moves es"
| "pool_moves (e # es) = pool_moves es"

text \<open>
  Any sequence of calls into one adapter instance: the five verbs and \<open>cleanup\<close> with
  any job and any answers of the collaborators, any incoming event, and the two
  internal routines \<open>_joined\<close> and \<open>_left\<close> called directly.
\<close>

datatype call =
    CallJoin job env
  | CallLeave job env
  | CallSend job env
  | CallUpdate job env
  | CallObserve job env
  | CallCleanup job
  | CallListener "(string \<times> jsval) list"
  | CallJoined string
  | CallLeft string

fun exec :: "call \<Rightarrow> irc \<Rightarrow> irc" where
  "exec (CallJoin j e) s = fst (join j e s)"
| "exec (CallLeave j e) s = fst (leave j e s)"
| "exec (CallSend j e) s = fst (send j e s)"
| "exec (CallUpdate j e) s = fst (update j e s)"
| "exec (CallObserve j e) s = fst (observe j e s)"
| "exec (CallCleanup j) s = fst (cleanup j s)"
| "exec (CallListener object) s = fst (listener object s)"
| "exec (CallJoined channel) s = fst (joined channel s)"
| "exec (CallLeft channel) s = fst (left channel s)"

definition run :: "call list \<Rightarrow> irc" where
  "run cs = foldl (\<lambda>s c. exec c s) IRC_new cs"

section \<open>The XMPP platform: \<open>sockethub-platform-xmpp/lib/incoming-handlers.js\<close>\<close>

subsection \<open>Stanzas\<close>

text \<open>
  A stanza is an element of the XML library: a name, string attributes (\<open>el.attrs.k\<close> is
  \<open>undefined\<close> when absent) and children. The library compares local names: what
  follows the first colon of a prefixed name, or the whole name. \<open>is(name)\<close> compares
  the element's local name, \<open>getChildren(name)\<close> keeps the child elements of that local
  name, \<open>getChild(name)\<close> is the first of them or \<open>undefined\<close>. \<open>toString()\<close> is the
  library's serialisation; the handlers take it as the parameter \<open>render\<close>.
\<close>

datatype xml = Element string "(string \<times> string) list" "xml list" | Text string

fun attr :: "xml \<Rightarrow> string \<Rightarrow> jsval" where
  "attr (Element name attrs children) k =
     (case map_of attrs k of None \<Rightarrow> JUndefined | Some v \<Rightarrow> JStr v)"
| "attr (Text t) k = JUndefined"

definition local_name :: "string \<Rightarrow> string" where
  "local_name name =
     (if str_indexOf name '':'' \<ge> 0 then drop (nat (str_indexOf name '':'') + 1) name else name)"

fun is_named :: "xml \<Rightarrow> string \<Rightarrow> bool" where
  "is_named (Element name attrs children) n = (local_name name = n)"
| "is_named (Text t) n = False"

fun getChildren :: "xml \<Rightarrow> string \<Rightarrow> xml list" where
  "getChildren (Element name attrs children) n = filter (\<lambda>c. is_named c n) children"
| "getChildren (Text t) n = []"

definition getChild :: "xml \<Rightarrow> string \<Rightarrow> xml option" where
  "getChild el n = (case getChildren el n of [] \<Rightarrow> None | c # cs \<Rightarrow> Some c)"

subsection \<open>The session and its guard\<close>

text \<open>
  A property of the session object that should hold a function: either it does, and the
  function returns normally after taking its argument (\<open>Function None\<close>) or throws
  (\<open>Function (Some e)\<close>), or the property is no longer a function (\<open>NotFunction\<close>), as
  after the worker has torn the session down.
\<close>

datatype capability = Function "js_error option" | NotFunction

record xsession =
  session_actor :: jsval
  session_debug_fn :: capability
  session_sendToClient_fn :: capability
  debug_log :: "jsval list"
  client_out :: "jsval list"

definition session_fn :: "xsession \<Rightarrow> string \<Rightarrow> capability" where
  "session_fn s funcName =
     (if funcName = ''debug'' then session_debug_fn s
      else if funcName = ''sendToClient'' then session_sendToClient_fn s
      else NotFunction)"

text \<open>\<open>session[funcName](msg)\<close>, once \<open>session[funcName]\<close> is known to be a function.\<close>

definition session_call :: "string \<Rightarrow> jsval \<Rightarrow> (xsession, unit) comp" where
  "session_call funcName msg s =
     (case session_fn s funcName of
        Function (Some e) \<Rightarrow> (s, Inl e)
      | Function None \<Rightarrow>
          (if funcName = ''debug'' then (s\<lparr>debug_log := debug_log s @ [msg]\<rparr>, Inr ())
           else (s\<lparr>client_out := client_out s @ [msg]\<rparr>, Inr ()))
      | NotFunction \<Rightarrow> (s, Inl (TypeError funcName)))"

text \<open>The wrapper \<open>checkScope(funcName)\<close> returns, applied to \<open>msg\<close>.\<close>

definition checkScope :: "string \<Rightarrow> jsval \<Rightarrow> (xsession, unit) comp" where
  "checkScope funcName msg s =
     (if session_fn s funcName \<noteq> NotFunction then session_call funcName msg s
      else (s, Inr ()))"

text \<open>
  The object \<open>referenceProtection(session)\<close> returns: \<open>actor\<close> is copied when the guard
  is made; \<open>debug\<close> and \<open>sendToClient\<close> are the two wrappers.
\<close>

record guard =
  guard_actor :: jsval

definition referenceProtection :: "xsession option \<Rightarrow> js_error + guard" where
  "referenceProtection session =
     (case session of
        None \<Rightarrow> Inl (PlainError ''session object not provided'')
      | Some s \<Rightarrow> Inr \<lparr>guard_actor = session_actor s\<rparr>)"

definition guard_debug :: "string \<Rightarrow> (xsession, unit) comp" where
  "guard_debug msg = checkScope ''debug'' (JStr msg)"

definition guard_sendToClient :: "jsval \<Rightarrow> (xsession, unit) comp" where
  "guard_sendToClient msg = checkScope ''sendToClient'' msg"

definition torn_down :: "xsession \<Rightarrow> bool" where
  "torn_down s = (session_debug_fn s = NotFunction \<and> session_sendToClient_fn s = NotFunction)"

subsection \<open>The handlers\<close>

text \<open>
  \<open>close\<close> ends with \<open>this.session.connection.disconnect()\<close>, where \<open>this.session\<close> is
  the guard object, which has no \<open>connection\<close>.
\<close>

definition close :: "guard \<Rightarrow> (xsession, unit) comp" where
  "close g =
     js_block
       [guard_debug ''received close event with no handler specified'',
        guard_sendToClient
          (JObj [(''@type'', JStr ''close''), (''actor'', guard_actor g), (''target'', guard_actor g)]),
        js_bind (js_lift (get_member (guard_actor g) ''@id'')) (\<lambda>i.
          guard_debug (''**** xmpp this.session.for '' @ to_string i @ '' closed'')),
        js_bind (js_lift (get_member JUndefined ''disconnect'')) (\<lambda>_. js_return ())]"

definition error :: "guard \<Rightarrow> jsval \<Rightarrow> (xsession, unit) comp" where
  "error g err =
     js_try
       (js_block
          [guard_debug (''*** XMPP ERROR (rl): '' @ to_string err),
           guard_sendToClient
             (JObj [(''@type'', JStr ''error''),
                    (''object'', JObj [(''@type'', JStr ''error''), (''content'', err)])])])
       (\<lambda>e. guard_debug ''*** XMPP ERROR (rl catch): '')"

definition online :: "guard \<Rightarrow> (xsession, unit) comp" where
  "online g =
     js_block
       [guard_debug ''online'',
        js_bind (js_lift (get_member (guard_actor g) ''@id'')) (\<lambda>i.
          guard_debug (''reconnectioned '' @ to_string i))]"

text \<open>
  One roster item of a query result. In the branch for \<open>subscription === 'both'\<close> the
  message literal reads the variable \<open>state\<close>, which nothing binds.
\<close>

definition roster_actor :: "xml \<Rightarrow> jsval" where
  "roster_actor entry = JObj [(''@id'', attr entry ''jid''), (''displayName'', attr entry ''name'')]"

definition roster_entry :: "guard \<Rightarrow> xml \<Rightarrow> (xsession, unit) comp" where
  "roster_entry g entry =
     js_bind (guard_debug ''STANZA ATTRS: '') (\<lambda>_.
       if attr entry ''subscription'' = JStr ''both'' then
         js_bind (free_variable ''state'') (\<lambda>state.
           guard_sendToClient
             (JObj [(''@type'', JStr ''update''), (''actor'', roster_actor entry),
                    (''target'', guard_actor g),
                    (''object'', JObj [(''@type'', JStr ''presence''), (''status'', JStr []),
                                       (''presence'', state)])]))
       else if attr entry ''subscription'' = JStr ''from'' \<and> truthy (attr entry ''ask'')
               \<and> attr entry ''ask'' = JStr ''subscribe'' then
         guard_sendToClient
           (JObj [(''@type'', JStr ''update''), (''actor'', roster_actor entry),
                  (''target'', guard_actor g),
                  (''object'', JObj [(''@type'', JStr ''presence''), (''statusText'', JStr []),
                                     (''presence'', JStr ''notauthorized'')])])
       else
         guard_sendToClient
           (JObj [(''@type'', JStr ''request-friend''), (''actor'', roster_actor entry),
                  (''target'', guard_actor g)]))"

text \<open>The loop \<open>for (let e in entries)\<close>: the items in order, up to the first throw.\<close>

fun roster_entries :: "guard \<Rightarrow> xml list \<Rightarrow> (xsession, unit) comp" where
  "roster_entries g [] = js_return ()"
| "roster_entries g (entry # entries) =
     js_bind (roster_entry g entry) (\<lambda>_. roster_entries g entries)"

text \<open>
  \<open>__stanza(stanza)\<close>. In the error branch \<open>type\<close> and \<open>message\<close> are assigned in the
  source's order. \<open>this.roomAttendance\<close> is not a method of the class.
\<close>

definition stanza_handler :: "(xml \<Rightarrow> string) \<Rightarrow> guard \<Rightarrow> xml \<Rightarrow> (xsession, unit) comp" where
  "stanza_handler render g stanza =
     (if attr stanza ''type'' = JStr ''error'' then
        (let error = getChild stanza ''error'';
             message = render stanza;
             type = ''message'';
             type = (if is_named stanza ''presence'' then ''update'' else type);
             (type, message) =
               (case error of
                  None \<Rightarrow> (type, message)
                | Some err \<Rightarrow>
                    (let message = render err
                     in if getChild err ''remote-server-not-found'' \<noteq> None
                        then (''join'', ''remote server not found '' @ to_string (attr stanza ''from''))
                        else (type, message)))
         in guard_sendToClient
              (JObj [(''@type'', JStr type),
                     (''actor'', JObj [(''@id'', attr stanza ''from''), (''@type'', JStr ''room'')]),
                     (''object'', JObj [(''@type'', JStr ''error''), (''content'', JStr message)]),
                     (''target'', JObj [(''@id'', attr stanza ''to''), (''@type'', JStr ''person'')])]))
      else if is_named stanza ''iq'' then
        (if attr stanza ''id'' = JStr ''muc_id'' \<and> attr stanza ''type'' = JStr ''result'' then
           js_block [guard_debug ''got room attendance list'', missing_method ''roomAttendance'']
         else
           (case getChild stanza ''query'' of
              None \<Rightarrow> js_return ()
            | Some query \<Rightarrow> roster_entries g (getChildren query ''item'')))
      else js_return ())"

text \<open>The roster items a stanza carries: those of its \<open>query\<close> child, if it has one.\<close>

definition roster_items :: "xml \<Rightarrow> xml list" where
  "roster_items stanza =
     (case getChild stanza ''query'' of None \<Rightarrow> [] | Some query \<Rightarrow> getChildren query ''item'')"

section \<open>Concrete inputs\<close>

text \<open>
  The actor \<open>alice\<close> on \<open>irc.host.net\<close>, her stored credentials, the client object the
  connection manager holds for her, and a job of hers aimed at the room \<open>#room\<close>.
\<close>

definition alice_credentials :: credentials where
  "alice_credentials =
     \<lparr>cred_actor_id = ''irc://alice@irc.host.net'', cred_actor_displayName = Some ''alice'',
      cred_actor_name = None, cred_nick = ''alice'', cred_server = ''irc.host.net'',
      cred_password = None, cred_port = None, cred_secure = None\<rparr>"

definition alice_client :: client where
  "alice_client =
     \<lparr>client_key = ''irc://alice@irc.host.net'', client_id = ''irc://alice@irc.host.net'',
      client_credentials = alice_credentials, client_handle = 7\<rparr>"

definition room_job :: job where
  "room_job =
     \<lparr>actor_id = ''irc://alice@irc.host.net'', actor_displayName = ''alice'',
      actor_address = JUndefined, target_id = ''irc://irc.host.net/room'',
      target_displayName = ''#room'', object_objectType = JUndefined,
      object_content = JStr ''  hello  '', object_topic = []\<rparr>"

text \<open>
  No connection is pooled yet: the store returns the credentials, the lookup finds
  nothing, and the manager's \<open>create\<close> calls back with a client.
\<close>

definition fresh_env :: env where
  "fresh_env =
     \<lparr>store_reply = Some (JNull, alice_credentials), pool_get = None,
      create_reply = Some (JNull, Some alice_client)\<rparr>"

text \<open>Calls that are neither a completion, a backend command, a message nor a store or pool update.\<close>

definition quiet :: "effect list \<Rightarrow> bool" where
  "quiet ds =
     (done_args ds = [] \<and> raw_commands ds = [] \<and> sent_messages ds = []
      \<and> stored_credentials ds = [] \<and> pool_moves ds = [])"




text \<open>A computation that leaves \<open>_channels\<close> as it found it, whatever it returns or throws.\<close>

definition keeps_channels :: "(irc, 'a) comp \<Rightarrow> bool" where
  "keeps_channels m = (\<forall>s. channels (fst (m s)) = channels s)"

text \<open>
  An XMPP session for \<open>alice\<close>, live and after teardown, the guard made for it, a
  serialisation that prints an element as its empty tag, and three stanzas: a roster
  result with two contacts, one with a contact of subscription \<open>both\<close>, and the
  presence error a failed room join comes back as.
\<close>

definition alice_actor :: jsval where
  "alice_actor = JObj [(''@id'', JStr ''alice@xmpp.host.net''), (''@type'', JStr ''person'')]"

definition live_session :: xsession where
  "live_session =
     \<lparr>session_actor = alice_actor, session_debug_fn = Function None,
      session_sendToClient_fn = Function None, debug_log = [], client_out = []\<rparr>"

definition dead_session :: xsession where
  "dead_session =
     \<lparr>session_actor = alice_actor, session_debug_fn = NotFunction,
      session_sendToClient_fn = NotFunction, debug_log = [], client_out = []\<rparr>"

definition alice_guard :: guard where
  "alice_guard = \<lparr>guard_actor = alice_actor\<rparr>"

fun render_tag :: "xml \<Rightarrow> string" where
  "render_tag (Element name attrs children) = ''<'' @ name @ ''/>''"
| "render_tag (Text t) = t"

definition roster_two :: xml where
  "roster_two =
     Element ''iq'' [(''type'', ''result''), (''id'', ''roster_1'')]
       [Element ''query'' [(''xmlns'', ''jabber:iq:roster'')]
          [Element ''item'' [(''jid'', ''bob@xmpp.host.net''), (''subscription'', ''none'')] [],
           Element ''item'' [(''jid'', ''carol@xmpp.host.net''), (''subscription'', ''to'')] []]]"

definition roster_both :: xml where
  "roster_both =
     Element ''iq'' [(''type'', ''result''), (''id'', ''roster_1'')]
       [Element ''query'' [(''xmlns'', ''jabber:iq:roster'')]
          [Element ''item'' [(''jid'', ''bob@xmpp.host.net''), (''subscription'', ''both'')] []]]"

definition join_failure :: xml where
  "join_failure =
     Element ''presence''
       [(''type'', ''error''), (''from'', ''room@muc.nowhere.net/alice''), (''to'', ''alice@xmpp.host.net'')]
       [Element ''error'' [(''type'', ''cancel'')] [Element ''remote-server-not-found'' [] []]]"

text \<open>
  The type and the content of an error report in the claim's words: \<open>join\<close> when the
  error element has a \<open>remote-server-not-found\<close> child (the content then names the
  stanza's sender, the room), otherwise \<open>update\<close> for a presence stanza, otherwise
  \<open>message\<close>; the content is otherwise the error element's text, or the stanza's when
  it has no error element.
\<close>

definition claimed_error_type :: "xml \<Rightarrow> string" where
  "claimed_error_type stanza =
     (case getChild stanza ''error'' of
        None \<Rightarrow> (if is_named stanza ''presence'' then ''update'' else ''message'')
      | Some err \<Rightarrow>
          if getChild err ''remote-server-not-found'' \<noteq> None then ''join''
          else if is_named stanza ''presence'' then ''update''
          else ''message'')"

definition claimed_error_content :: "(xml \<Rightarrow> string) \<Rightarrow> xml \<Rightarrow> string" where
  "claimed_error_content render stanza =
     (case getChild stanza ''error'' of
        None \<Rightarrow> render stanza
      | Some err \<Rightarrow>
          if getChild err ''remote-server-not-found'' \<noteq> None
          then ''remote server not found '' @ to_string (attr stanza ''from'')
          else render err)"

definition error_report :: "string \<Rightarrow> xml \<Rightarrow> string \<Rightarrow> jsval" where
  "error_report type stanza content =
     JObj [(''@type'', JStr type),
           (''actor'', JObj [(''@id'', attr stanza ''from''), (''@type'', JStr ''room'')]),
           (''object'', JObj [(''@type'', JStr ''error''), (''content'', JStr content)]),
           (''target'', JObj [(''@id'', attr stanza ''to''), (''@type'', JStr ''person'')])]"

text \<open>
  An event that carries a \<open>channel\<close> and nothing else, and the result stanza of a room
  attendance query.
\<close>

definition channel_only_event :: "(string \<times> jsval) list" where
  "channel_only_event = [(''channel'', JStr ''#room'')]"

definition attendance_result :: xml where
  "attendance_result = Element ''iq'' [(''type'', ''result''), (''id'', ''muc_id'')] []"

text \<open>
  A user-mode notification (a nickname and a mode, no target); a job renaming \<open>alice\<close>
  to \<open>alice2\<close>; and collaborators that already pool her connection.
\<close>

definition mode_event :: "(string \<times> jsval) list" where
  "mode_event = [(''nickname'', JStr ''bob''), (''mode'', JStr ''+i''), (''raw'', JStr '':bob MODE bob :+i'')]"

definition rename_job :: job where
  "rename_job = room_job\<lparr>target_id := ''irc://alice2@irc.host.net'', target_displayName := ''alice2'',
     object_objectType := JStr ''address''\<rparr>"

definition pooled_env :: env where
  "pooled_env =
     \<lparr>store_reply = Some (JNull, alice_credentials), pool_get = Some alice_client,
      create_reply = None\<rparr>"

section \<open>Verified properties\<close>

lemmas comp_defs = js_bind_def js_return_def js_throw_def js_lift_def js_try_def
  free_variable_def missing_method_def

lemmas call_defs = emit_def session_debug_def irc_raw_def done_cb_def session_send_def

lemma done_args_append: "done_args (xs @ ys) = done_args xs @ done_args ys"
  by (induction xs rule: done_args.induct) simp_all

lemma raw_commands_append: "raw_commands (xs @ ys) = raw_commands xs @ raw_commands ys"
  by (induction xs rule: raw_commands.induct) simp_all

lemma sent_messages_append: "sent_messages (xs @ ys) = sent_messages xs @ sent_messages ys"
  by (induction xs rule: sent_messages.induct) simp_all

lemma stored_credentials_append:
  "stored_credentials (xs @ ys) = stored_credentials xs @ stored_credentials ys"
  by (induction xs rule: stored_credentials.induct) simp_all

lemma pool_moves_append: "pool_moves (xs @ ys) = pool_moves xs @ pool_moves ys"
  by (induction xs rule: pool_moves.induct) simp_all

lemma getClient_shape:
  "\<exists>ds r. quiet ds \<and> (\<forall>s. getClient job cr e s = (s\<lparr>calls := calls s @ ds\<rparr>, r))"
proof (cases "store_reply e")
  case None
  then have "\<forall>s. getClient job cr e s = (s\<lparr>calls := calls s @ []\<rparr>, Inr Pending)"
    by (simp add: getClient_def comp_defs)
  moreover have "quiet []" by (simp add: quiet_def)
  ultimately show ?thesis by blast
next
  case (Some a)
  obtain err creds where a: "a = (err, creds)" by (cases a)
  show ?thesis
  proof (cases "truthy err")
    case True
    with Some a have "\<forall>s. getClient job cr e s = (s\<lparr>calls := calls s @ []\<rparr>, Inl (ReferenceError ''promise''))"
      by (simp add: getClient_def comp_defs)
    moreover have "quiet []" by (simp add: quiet_def)
    ultimately show ?thesis by blast
  next
    case False
    show ?thesis
    proof (cases "pool_get e")
      case (Some c)
      with False \<open>store_reply e = Some a\<close> a
      have "\<forall>s. getClient job cr e s =
          (s\<lparr>calls := calls s @ [SessionDebug (''got config for '' @ actor_id job),
              SessionDebug (''returning existing client '' @ client_id c)]\<rparr>, Inr (Resolved c))"
        by (simp add: getClient_def comp_defs call_defs)
      moreover have "quiet [SessionDebug (''got config for '' @ actor_id job),
              SessionDebug (''returning existing client '' @ client_id c)]"
        by (simp add: quiet_def)
      ultimately show ?thesis by blast
    next
      case None
      show ?thesis
      proof (cases "case cr of Some b \<Rightarrow> b | None \<Rightarrow> True")
        case False
        with None \<open>\<not> truthy err\<close> \<open>store_reply e = Some a\<close> a
        have "\<forall>s. getClient job cr e s =
          (s\<lparr>calls := calls s @ [SessionDebug (''got config for '' @ actor_id job)]\<rparr>,
           Inr (Rejected (Value JUndefined)))"
          by (simp add: getClient_def comp_defs call_defs)
        moreover have "quiet [SessionDebug (''got config for '' @ actor_id job)]"
          by (simp add: quiet_def)
        ultimately show ?thesis by blast
      next
        case True
        define r where "r = (case create_reply e of
          None \<Rightarrow> Pending
        | Some (err, c) \<Rightarrow>
            if truthy err then Rejected (Value err)
            else (case c of
                    None \<Rightarrow> Rejected (Value (JStr ''didnt receive a client object.''))
                  | Some cl \<Rightarrow> Resolved cl))"
        from True None \<open>\<not> truthy err\<close> \<open>store_reply e = Some a\<close> a
        have "\<forall>s. getClient job cr e s =
          (s\<lparr>calls := calls s @ [SessionDebug (''got config for '' @ actor_id job),
             SessionDebug (''creating new client connection: '' @ cred_server creds),
             PoolCreate (cred_actor_id creds)]\<rparr>, Inr r)"
          by (simp add: getClient_def createClient_def comp_defs call_defs r_def)
        moreover have "quiet [SessionDebug (''got config for '' @ actor_id job),
             SessionDebug (''creating new client connection: '' @ cred_server creds),
             PoolCreate (cred_actor_id creds)]"
          by (simp add: quiet_def)
        ultimately show ?thesis by blast
      qed
    qed
  qed
qed

lemma getClient_resolved:
  assumes "getClient job cr e s0 = (s0', Inr (Resolved c))"
  shows "\<exists>ds. quiet ds \<and> (\<forall>s. getClient job cr e s = (s\<lparr>calls := calls s @ ds\<rparr>, Inr (Resolved c)))"
proof -
  obtain ds r where q: "quiet ds" and g: "\<forall>s. getClient job cr e s = (s\<lparr>calls := calls s @ ds\<rparr>, r)"
    using getClient_shape by blast
  from g assms have "r = Inr (Resolved c)" by simp
  with q g show ?thesis by blast
qed

text \<open>
  C1. The claim: for every verb, once a live connection is resolved, the completion
  callback is invoked exactly once. In the code, \<open>join\<close> and \<open>leave\<close> on a resolved
  connection never invoke it: the success handler of \<open>join\<close> throws on its first
  statement (\<open>err\<close> is unbound), that of \<open>leave\<close> throws at \<open>self._leave\<close> after the PART
  command, and neither exception reaches the callback.
\<close>

theorem C1_join_leave_callback_uninvoked:
  assumes "getClient job None e s0 = (s0', Inr (Resolved c))"
  shows "done_args (new_calls (join job e) s) = [] \<and> snd (join job e s) = Inl (ReferenceError ''err'')
       \<and> done_args (new_calls (leave job e) s) = [] \<and> snd (leave job e s) = Inl (TypeError ''_leave'')"
proof -
  obtain ds where q: "quiet ds"
    and g: "\<And>s. getClient job None e s = (s\<lparr>calls := calls s @ ds\<rparr>, Inr (Resolved c))"
    using getClient_resolved [OF assms] by blast
  have j: "join job e s = (s\<lparr>calls := calls s @ SessionDebug ''join() called'' # ds\<rparr>, Inl (ReferenceError ''err''))"
    by (simp add: join_def join_resolved_def comp_defs call_defs g)
  have l: "leave job e s = (s\<lparr>calls := calls s @ SessionDebug ''leave() called'' # ds @
       [SessionDebug (''leave: '' @ actor_displayName job @ '' -< '' @ target_displayName job),
        IrcRaw (client_handle c) [''PART'', target_displayName job]]\<rparr>, Inl (TypeError ''_leave''))"
    by (simp add: leave_def leave_resolved_def comp_defs call_defs g)
  from q show ?thesis
    by (simp add: j l new_calls_def quiet_def done_args_append)
qed


theorem C1_join_leave_callback_uninvoked_witness:
  "snd (getClient room_job None fresh_env IRC_new) = Inr (Resolved alice_client)
   \<and> done_args (new_calls (join room_job fresh_env) IRC_new) = []
   \<and> snd (join room_job fresh_env IRC_new) = Inl (ReferenceError ''err'')
   \<and> done_args (new_calls (leave room_job fresh_env) IRC_new) = []
   \<and> snd (leave room_job fresh_env IRC_new) = Inl (TypeError ''_leave'')"
proof -
  have h: "getClient room_job None fresh_env IRC_new =
      (fst (getClient room_job None fresh_env IRC_new), Inr (Resolved alice_client))"
    by (simp add: getClient_def createClient_def fresh_env_def comp_defs call_defs)
  have g: "snd (getClient room_job None fresh_env IRC_new) = Inr (Resolved alice_client)"
    by (simp add: getClient_def createClient_def fresh_env_def comp_defs call_defs)
  from C1_join_leave_callback_uninvoked [OF h, of IRC_new] g show ?thesis
    by blast
qed

lemma indexOf_from_range: "indexOf_from pat s i = - 1 \<or> i \<le> indexOf_from pat s i"
proof (induction s arbitrary: i)
  case Nil
  show ?case by simp
next
  case (Cons c cs)
  from Cons [of "i + 1"] show ?case by auto
qed

lemma str_indexOf_hash: "(str_indexOf t ''#'' = 0) = (\<exists>rest. t = CHR ''#'' # rest)"
proof (cases t)
  case Nil
  then show ?thesis by (simp add: str_indexOf_def)
next
  case (Cons c cs)
  have "indexOf_from ''#'' cs 1 \<noteq> 0"
    using indexOf_from_range [of "''#''" cs 1] by auto
  with Cons show ?thesis by (simp add: str_indexOf_def)
qed

lemma list_indexOf_from_range: "list_indexOf_from xs x i = - 1 \<or> i \<le> list_indexOf_from xs x i"
proof (induction xs arbitrary: i)
  case Nil
  show ?case by simp
next
  case (Cons y ys)
  from Cons [of "i + 1"] show ?case by auto
qed

lemma list_indexOf_from_member: "0 \<le> i \<Longrightarrow> (0 \<le> list_indexOf_from xs x i) = (x \<in> set xs)"
proof (induction xs arbitrary: i)
  case Nil
  show ?case by simp
next
  case (Cons y ys)
  from Cons.IH [of "i + 1"] Cons.prems show ?case by auto
qed

lemma list_indexOf_member: "(0 \<le> list_indexOf xs x) = (x \<in> set xs)"
  by (simp add: list_indexOf_def list_indexOf_from_member)

lemma isJoined_iff:
  "isJoined s t = ((\<forall>rest. t \<noteq> CHR ''#'' # rest) \<or> t \<in> set (channels s))"
  by (auto simp: isJoined_def str_indexOf_hash list_indexOf_member)










lemma keeps_return: "keeps_channels (js_return x)"
  by (simp add: keeps_channels_def js_return_def)

lemma keeps_throw: "keeps_channels (js_throw e)"
  by (simp add: keeps_channels_def js_throw_def)

lemma keeps_lift: "keeps_channels (js_lift r)"
  by (simp add: keeps_channels_def js_lift_def)

lemma keeps_emit: "keeps_channels (emit e)"
  by (simp add: keeps_channels_def emit_def)

lemma keeps_bind:
  assumes "keeps_channels m" and "\<And>x. keeps_channels (f x)"
  shows "keeps_channels (js_bind m f)"
proof (unfold keeps_channels_def, rule allI)
  fix s
  obtain s' r where m: "m s = (s', r)" by (cases "m s")
  with assms(1) have c: "channels s' = channels s"
    by (auto simp: keeps_channels_def dest: spec [of _ s])
  show "channels (fst (js_bind m f s)) = channels s"
  proof (cases r)
    case (Inl e)
    with m c show ?thesis by (simp add: js_bind_def)
  next
    case (Inr x)
    from assms(2) [of x] have "channels (fst (f x s')) = channels s'"
      by (simp add: keeps_channels_def)
    with m c Inr show ?thesis by (simp add: js_bind_def)
  qed
qed

lemma keeps_try:
  assumes "keeps_channels m" and "\<And>e. keeps_channels (h e)"
  shows "keeps_channels (js_try m h)"
proof (unfold keeps_channels_def, rule allI)
  fix s
  obtain s' r where m: "m s = (s', r)" by (cases "m s")
  with assms(1) have c: "channels s' = channels s"
    by (auto simp: keeps_channels_def dest: spec [of _ s])
  show "channels (fst (js_try m h s)) = channels s"
  proof (cases r)
    case (Inl e)
    from assms(2) [of e] have "channels (fst (h e s')) = channels s'"
      by (simp add: keeps_channels_def)
    with m c Inl show ?thesis by (simp add: js_try_def)
  next
    case (Inr x)
    with m c show ?thesis by (simp add: js_try_def)
  qed
qed

lemma keeps_block_Nil: "keeps_channels (js_block [])"
  by (simp add: keeps_return)

lemma keeps_block_Cons:
  "keeps_channels m \<Longrightarrow> keeps_channels (js_block ms) \<Longrightarrow> keeps_channels (js_block (m # ms))"
  by (simp add: keeps_bind)

lemma keeps_if:
  "keeps_channels m \<Longrightarrow> keeps_channels n \<Longrightarrow> keeps_channels (if b then m else n)"
  by simp

lemma keeps_state_if:
  "keeps_channels m \<Longrightarrow> keeps_channels n \<Longrightarrow> keeps_channels (\<lambda>s. if P s then m s else n s)"
  by (simp add: keeps_channels_def)

lemma keeps_calls:
  "keeps_channels (session_debug msg)" "keeps_channels (irc_raw c args)"
  "keeps_channels (done_cb r)" "keeps_channels (session_send v)"
  by (simp_all add: call_defs(2-) keeps_emit)

lemma joined_throws: "joined channel s = (s, Inl (ReferenceError ''job''))"
  by (simp add: joined_def comp_defs)

lemma left_throws: "left channel s = (s, Inl (ReferenceError ''job''))"
  by (simp add: left_def comp_defs)

lemma keeps_joined: "keeps_channels (joined channel)"
  by (simp add: keeps_channels_def joined_throws)

lemma keeps_left: "keeps_channels (left channel)"
  by (simp add: keeps_channels_def left_throws)

lemma keeps_free_variable: "keeps_channels (free_variable n)"
  by (simp add: free_variable_def keeps_throw)

lemma keeps_missing_method: "keeps_channels (missing_method n)"
  by (simp add: missing_method_def keeps_throw)

lemma keeps_then_or:
  assumes "\<And>v. keeps_channels (f v)" and "\<And>r. keeps_channels (g r)"
  shows "keeps_channels (then_or p f g)"
  using assms by (cases p) (simp_all add: keeps_return)

lemma keeps_then_catch:
  assumes "\<And>v. keeps_channels (f v)" and "\<And>r. keeps_channels (g r)"
  shows "keeps_channels (then_catch p f g)"
  using assms by (cases p) (simp_all add: keeps_return keeps_try)

lemma keeps_getClient: "keeps_channels (getClient job cr e)"
proof -
  obtain ds r where "\<forall>s. getClient job cr e s = (s\<lparr>calls := calls s @ ds\<rparr>, r)"
    using getClient_shape by blast
  then show ?thesis by (simp add: keeps_channels_def)
qed

lemmas keeps_intros =
  keeps_bind keeps_block_Nil keeps_block_Cons keeps_if keeps_state_if keeps_calls keeps_emit
  keeps_return keeps_lift keeps_joined keeps_left keeps_free_variable keeps_missing_method
  keeps_then_or keeps_then_catch keeps_getClient

lemma keeps_join: "keeps_channels (join job e)"
  unfolding join_def join_resolved_def by (intro keeps_intros)

lemma keeps_leave: "keeps_channels (leave job e)"
  unfolding leave_def leave_resolved_def by (intro keeps_intros)

lemma keeps_send: "keeps_channels (send job e)"
  unfolding send_def send_resolved_def Let_def by (intro keeps_intros)

lemma keeps_update: "keeps_channels (update job e)"
  unfolding update_def update_resolved_def Let_def by (intro keeps_intros)

lemma keeps_observe: "keeps_channels (observe job e)"
  unfolding observe_def observe_resolved_def by (intro keeps_intros)

lemma keeps_listener: "keeps_channels (listener ob)"
  unfolding listener_def on_names_def on_topic_def on_nick_def on_join_def on_message_def
    on_quit_def on_part_def
  by (intro keeps_intros)

lemma exec_channels: "channels (exec c s) = channels s"
proof (cases c)
  case (CallJoin j e)
  with keeps_join [of j e] show ?thesis by (simp add: keeps_channels_def)
next
  case (CallLeave j e)
  with keeps_leave [of j e] show ?thesis by (simp add: keeps_channels_def)
next
  case (CallSend j e)
  with keeps_send [of j e] show ?thesis by (simp add: keeps_channels_def)
next
  case (CallUpdate j e)
  with keeps_update [of j e] show ?thesis by (simp add: keeps_channels_def)
next
  case (CallObserve j e)
  with keeps_observe [of j e] show ?thesis by (simp add: keeps_channels_def)
next
  case (CallCleanup j)
  then show ?thesis by (simp add: cleanup_def call_defs)
next
  case (CallListener ob)
  with keeps_listener [of ob] show ?thesis by (simp add: keeps_channels_def)
next
  case (CallJoined ch)
  then show ?thesis by (simp add: joined_throws)
next
  case (CallLeft ch)
  then show ?thesis by (simp add: left_throws)
qed

lemma foldl_exec_channels: "channels (foldl (\<lambda>s c. exec c s) s0 cs) = channels s0"
  by (induction cs arbitrary: s0) (simp_all add: exec_channels)

text \<open>
  C10. \<open>_channels\<close> is empty after every sequence of calls into an adapter instance
  (the verbs, \<open>cleanup\<close>, incoming events, \<open>_joined\<close> and \<open>_left\<close> themselves), because
  \<open>_joined\<close>, the only routine that pushes, throws on the unbound \<open>job\<close> before it
  pushes; so \<open>_isJoined\<close> holds exactly of the targets that do not begin with \<open>#\<close>.
\<close>

theorem C10_membership_always_empty:
  "channels (run cs) = []
   \<and> isJoined (run cs) t = (\<forall>rest. t \<noteq> CHR ''#'' # rest)
   \<and> joined channel s = (s, Inl (ReferenceError ''job''))"
proof -
  have c: "channels (run cs) = []"
    by (simp add: run_def foldl_exec_channels IRC_new_def)
  then have "isJoined (run cs) t = (\<forall>rest. t \<noteq> CHR ''#'' # rest)"
    by (simp add: isJoined_iff)
  with c show ?thesis by (simp add: joined_throws)
qed

text \<open>
  C3. The claim: after a \<open>join\<close> on a resolvable connection the target is in
  \<open>_channels\<close> and the callback has fired with success. In the code, \<open>join\<close> never
  changes \<open>_channels\<close> and never issues a backend command, for any job, any answers of
  the collaborators and any state; for \<open>#room\<close> with no prior connection it ends in the
  unhandled \<open>ReferenceError\<close> on \<open>err\<close>, with no \<open>JOIN\<close> sent and no callback.
\<close>

theorem C3_join_adds_no_membership:
  "channels (fst (join job e s)) = channels s
   \<and> raw_commands (new_calls (join job e) s) = []
   \<and> join room_job fresh_env IRC_new =
       (\<lparr>channels = [],
         calls = [SessionDebug ''join() called'',
                  SessionDebug ''got config for irc://alice@irc.host.net'',
                  SessionDebug ''creating new client connection: irc.host.net'',
                  PoolCreate ''irc://alice@irc.host.net'']\<rparr>,
        Inl (ReferenceError ''err''))"
proof -
  have a: "channels (fst (join job e s)) = channels s"
    using keeps_join [of job e] by (simp add: keeps_channels_def)
  obtain ds r where q: "quiet ds"
    and g: "\<And>s. getClient job None e s = (s\<lparr>calls := calls s @ ds\<rparr>, r)"
    using getClient_shape by blast
  let ?d = "SessionDebug ''join() called''"
  have "calls (fst (join job e s)) = calls s @ ?d # ds
      \<or> (\<exists>x. calls (fst (join job e s)) = calls s @ ?d # ds @ [Done x])"
  proof (cases r)
    case (Inl x)
    then show ?thesis by (simp add: join_def comp_defs call_defs g)
  next
    case (Inr p)
    then show ?thesis
      by (cases p) (simp_all add: join_def join_resolved_def comp_defs call_defs g)
  qed
  with q have b: "raw_commands (new_calls (join job e) s) = []"
    by (auto simp: new_calls_def quiet_def raw_commands_append)
  have c: "join room_job fresh_env IRC_new =
       (\<lparr>channels = [],
         calls = [SessionDebug ''join() called'',
                  SessionDebug ''got config for irc://alice@irc.host.net'',
                  SessionDebug ''creating new client connection: irc.host.net'',
                  PoolCreate ''irc://alice@irc.host.net'']\<rparr>,
        Inl (ReferenceError ''err''))"
    by (simp add: join_def join_resolved_def getClient_def createClient_def comp_defs call_defs
        fresh_env_def room_job_def alice_credentials_def IRC_new_def)
  from a b c show ?thesis by blast
qed

lemma local_names:
  "local_name ''iq'' = ''iq''" "local_name ''query'' = ''query''" "local_name ''item'' = ''item''"
  "local_name ''presence'' = ''presence''" "local_name ''error'' = ''error''"
  "local_name ''remote-server-not-found'' = ''remote-server-not-found''"
  by (simp_all add: local_name_def str_indexOf_def)

lemmas guard_defs = guard_debug_def guard_sendToClient_def checkScope_def session_fn_def
  session_call_def

lemma checkScope_torn_down: "torn_down s \<Longrightarrow> checkScope f v s = (s, Inr ())"
  by (simp add: checkScope_def session_fn_def torn_down_def)

lemma roster_entry_torn_down: "torn_down s \<Longrightarrow> fst (roster_entry g en s) = s"
  by (simp add: roster_entry_def guard_debug_def guard_sendToClient_def checkScope_torn_down
      comp_defs)

lemma roster_entries_torn_down: "torn_down s \<Longrightarrow> fst (roster_entries g es s) = s"
proof (induction es)
  case Nil
  show ?case by (simp add: js_return_def)
next
  case (Cons en es)
  obtain r where r: "roster_entry g en s = (s, r)"
    using roster_entry_torn_down [OF Cons.prems, of g en] by (cases "roster_entry g en s") simp
  from Cons show ?case by (cases r) (simp_all add: js_bind_def r)
qed

text \<open>
  C4. Once the session's \<open>debug\<close> and \<open>sendToClient\<close> are no longer functions, every
  call through the guard returns normally and changes nothing, and so each handler
  (\<open>close\<close>, \<open>error\<close>, \<open>online\<close>, \<open>__stanza\<close>) leaves the session as it was.
\<close>

theorem C4_guard_after_teardown:
  assumes "torn_down s"
  shows "checkScope funcName v s = (s, Inr ())
       \<and> guard_debug msg s = (s, Inr ())
       \<and> guard_sendToClient v s = (s, Inr ())
       \<and> fst (close g s) = s
       \<and> fst (error g err s) = s
       \<and> fst (online g s) = s
       \<and> fst (stanza_handler render g stanza s) = s"
proof -
  note t = checkScope_torn_down [OF assms]
  have c: "fst (close g s) = s"
    by (cases "get_member (guard_actor g) ''@id''")
       (simp_all add: close_def guard_debug_def guard_sendToClient_def t comp_defs)
  have e: "fst (error g err s) = s"
    by (simp add: error_def guard_debug_def guard_sendToClient_def t comp_defs)
  have n: "fst (online g s) = s"
    by (cases "get_member (guard_actor g) ''@id''")
       (simp_all add: online_def guard_debug_def guard_sendToClient_def t comp_defs)
  have h: "fst (stanza_handler render g stanza s) = s"
    by (simp add: stanza_handler_def guard_debug_def guard_sendToClient_def t comp_defs
        roster_entries_torn_down [OF assms] Let_def split: option.splits prod.splits)
  from t c e n h show ?thesis
    by (simp add: guard_debug_def guard_sendToClient_def)
qed

theorem C4_guard_after_teardown_witness:
  "torn_down dead_session
   \<and> checkScope ''sendToClient'' (JStr ''late'') dead_session = (dead_session, Inr ())
   \<and> guard_debug ''late'' dead_session = (dead_session, Inr ())
   \<and> guard_sendToClient (JStr ''late'') dead_session = (dead_session, Inr ())
   \<and> fst (close alice_guard dead_session) = dead_session
   \<and> fst (error alice_guard (JStr ''late'') dead_session) = dead_session
   \<and> fst (online alice_guard dead_session) = dead_session
   \<and> fst (stanza_handler render_tag alice_guard roster_two dead_session) = dead_session"
proof -
  have t: "torn_down dead_session"
    by (simp add: torn_down_def dead_session_def)
  from C4_guard_after_teardown [OF t] t show ?thesis by blast
qed

text \<open>
  C9. For a stanza whose \<open>type\<close> attribute is \<open>error\<close>, \<open>__stanza\<close> makes exactly one
  \<open>sendToClient\<close> call through the guard and nothing else; its message has the type
  \<open>join\<close>, \<open>update\<close> or \<open>message\<close> as the claim orders them, an object of type \<open>error\<close>
  whose content is the error text, and on a live session exactly that one message is
  delivered.
\<close>

theorem C9_error_stanza_report:
  assumes "attr stanza ''type'' = JStr ''error''"
  shows "stanza_handler render g stanza s
           = guard_sendToClient
               (error_report (claimed_error_type stanza) stanza (claimed_error_content render stanza)) s
       \<and> (session_sendToClient_fn s = Function None \<longrightarrow>
            stanza_handler render g stanza s
              = (s\<lparr>client_out := client_out s @
                    [error_report (claimed_error_type stanza) stanza
                       (claimed_error_content render stanza)]\<rparr>, Inr ()))"
proof -
  let ?m = "error_report (claimed_error_type stanza) stanza (claimed_error_content render stanza)"
  have a: "stanza_handler render g stanza s = guard_sendToClient ?m s"
  proof (cases "getChild stanza ''error''")
    case None
    with assms show ?thesis
      by (simp add: stanza_handler_def claimed_error_type_def claimed_error_content_def
          error_report_def)
  next
    case (Some err)
    with assms show ?thesis
      by (cases "getChild err ''remote-server-not-found''")
         (simp_all add: stanza_handler_def claimed_error_type_def claimed_error_content_def
          error_report_def)
  qed
  have b: "guard_sendToClient ?m s = (s\<lparr>client_out := client_out s @ [?m]\<rparr>, Inr ())"
    if "session_sendToClient_fn s = Function None"
    using that by (simp add: guard_defs)
  from a b show ?thesis by simp
qed

theorem C9_error_stanza_report_witness:
  "attr join_failure ''type'' = JStr ''error''
   \<and> session_sendToClient_fn live_session = Function None
   \<and> stanza_handler render_tag alice_guard join_failure live_session
       = (live_session\<lparr>client_out :=
            [JObj [(''@type'', JStr ''join''),
                   (''actor'', JObj [(''@id'', JStr ''room@muc.nowhere.net/alice''),
                                     (''@type'', JStr ''room'')]),
                   (''object'', JObj [(''@type'', JStr ''error''),
                      (''content'', JStr ''remote server not found room@muc.nowhere.net/alice'')]),
                   (''target'', JObj [(''@id'', JStr ''alice@xmpp.host.net''),
                                      (''@type'', JStr ''person'')])]]\<rparr>, Inr ())"
proof -
  have h: "attr join_failure ''type'' = JStr ''error''"
    by (simp add: join_failure_def)
  have l: "session_sendToClient_fn live_session = Function None"
    by (simp add: live_session_def)
  have v: "error_report (claimed_error_type join_failure) join_failure
             (claimed_error_content render_tag join_failure)
      = JObj [(''@type'', JStr ''join''),
                   (''actor'', JObj [(''@id'', JStr ''room@muc.nowhere.net/alice''),
                                     (''@type'', JStr ''room'')]),
                   (''object'', JObj [(''@type'', JStr ''error''),
                      (''content'', JStr ''remote server not found room@muc.nowhere.net/alice'')]),
                   (''target'', JObj [(''@id'', JStr ''alice@xmpp.host.net''),
                                      (''@type'', JStr ''person'')])]"
    by (simp add: error_report_def claimed_error_type_def claimed_error_content_def
        join_failure_def getChild_def local_names)
  have c: "client_out live_session = []"
    by (simp add: live_session_def)
  from C9_error_stanza_report [OF h, of render_tag alice_guard live_session] l
  have "stanza_handler render_tag alice_guard join_failure live_session
      = (live_session\<lparr>client_out := client_out live_session @
           [error_report (claimed_error_type join_failure) join_failure
              (claimed_error_content render_tag join_failure)]\<rparr>, Inr ())"
    by blast
  then have "stanza_handler render_tag alice_guard join_failure live_session
       = (live_session\<lparr>client_out :=
            [JObj [(''@type'', JStr ''join''),
                   (''actor'', JObj [(''@id'', JStr ''room@muc.nowhere.net/alice''),
                                     (''@type'', JStr ''room'')]),
                   (''object'', JObj [(''@type'', JStr ''error''),
                      (''content'', JStr ''remote server not found room@muc.nowhere.net/alice'')]),
                   (''target'', JObj [(''@id'', JStr ''alice@xmpp.host.net''),
                                      (''@type'', JStr ''person'')])]]\<rparr>, Inr ())"
    by (simp only: v c append_Nil)
  with h l show ?thesis by blast
qed

lemmas on_defs = on_names_def on_topic_def on_nick_def on_join_def on_message_def on_quit_def
  on_part_def

lemma on_sends:
  "length (sent_messages (new_calls (on_names ob) s)) \<le> 1"
  "length (sent_messages (new_calls (on_topic ob) s)) \<le> 1"
  "length (sent_messages (new_calls (on_nick ob) s)) \<le> 1"
  "length (sent_messages (new_calls (on_join ob) s)) \<le> 1"
  "length (sent_messages (new_calls (on_message ob) s)) \<le> 1"
  "length (sent_messages (new_calls (on_quit ob) s)) \<le> 1"
  "length (sent_messages (new_calls (on_part ob) s)) \<le> 1"
  by (simp_all add: on_defs new_calls_def comp_defs call_defs)

lemma return_sends: "length (sent_messages (new_calls (js_return x) s)) \<le> 1"
  by (simp add: new_calls_def js_return_def)

lemma if_sends:
  "length (sent_messages (new_calls m s)) \<le> 1 \<Longrightarrow> length (sent_messages (new_calls n s)) \<le> 1
   \<Longrightarrow> length (sent_messages (new_calls (if c then m else n) s)) \<le> 1"
  by simp

lemma test_sends:
  assumes "\<And>hit. length (sent_messages (new_calls (f hit) s)) \<le> 1"
  shows "length (sent_messages
           (new_calls (js_bind (if c then js_lift r else js_return False) f) s)) \<le> 1"
proof (cases c)
  case False
  then have "js_bind (if c then js_lift r else js_return False) f s = f False s"
    by (simp add: comp_defs)
  with assms [of False] show ?thesis by (simp add: new_calls_def)
next
  case True
  show ?thesis
  proof (cases r)
    case (Inl e)
    with True show ?thesis by (simp add: new_calls_def comp_defs)
  next
    case (Inr hit)
    with True have "js_bind (if c then js_lift r else js_return False) f s = f hit s"
      by (simp add: comp_defs)
    with assms [of hit] show ?thesis by (simp add: new_calls_def)
  qed
qed

lemma listener_sends: "length (sent_messages (new_calls (listener ob) s)) \<le> 1"
  unfolding listener_def by (intro if_sends test_sends return_sends on_sends)

lemma checkScope_out:
  "length (client_out (fst (checkScope f v s))) \<le> length (client_out s) + 1"
  by (simp add: guard_defs split: capability.splits option.splits)

lemma guard_debug_out: "client_out (fst (guard_debug msg s)) = client_out s"
  by (simp add: guard_defs split: capability.splits option.splits)

lemma roster_entry_out:
  "length (client_out (fst (roster_entry g en s))) \<le> length (client_out s) + 1"
proof -
  obtain s' r where d: "guard_debug ''STANZA ATTRS: '' s = (s', r)"
    by (cases "guard_debug ''STANZA ATTRS: '' s")
  with guard_debug_out [of "''STANZA ATTRS: ''" s] have o: "client_out s' = client_out s"
    by simp
  show ?thesis
  proof (cases r)
    case (Inl e)
    with d o show ?thesis by (simp add: roster_entry_def js_bind_def)
  next
    case (Inr u)
    with d o checkScope_out [of "''sendToClient''" _ s'] show ?thesis
      by (simp add: roster_entry_def js_bind_def free_variable_def js_throw_def
          guard_sendToClient_def)
  qed
qed

lemma roster_entries_out:
  "length (client_out (fst (roster_entries g es s))) \<le> length (client_out s) + length es"
proof (induction es arbitrary: s)
  case Nil
  show ?case by (simp add: js_return_def)
next
  case (Cons en es)
  obtain s' r where e: "roster_entry g en s = (s', r)" by (cases "roster_entry g en s")
  with roster_entry_out [of g en s] have o: "length (client_out s') \<le> length (client_out s) + 1"
    by simp
  show ?case
  proof (cases r)
    case (Inl x)
    with e o show ?thesis by (simp add: js_bind_def)
  next
    case (Inr u)
    with e o Cons.IH [of s'] show ?thesis by (simp add: js_bind_def)
  qed
qed

text \<open>
  C5, as amended. One IRC event makes the listener send at most one message. One XMPP
  stanza makes \<open>__stanza\<close> deliver at most one message when it is an error stanza or
  not an \<open>iq\<close>, and at most one message per roster item of its query when it is an
  \<open>iq\<close>.
\<close>

theorem C5_messages_per_event:
  "length (sent_messages (new_calls (listener object) s)) \<le> 1
   \<and> length (client_out (fst (stanza_handler render g stanza x)))
       \<le> length (client_out x)
         + (if attr stanza ''type'' \<noteq> JStr ''error'' \<and> is_named stanza ''iq''
            then length (roster_items stanza) else 1)"
proof -
  have h: "length (client_out (fst (stanza_handler render g stanza x)))
       \<le> length (client_out x)
         + (if attr stanza ''type'' \<noteq> JStr ''error'' \<and> is_named stanza ''iq''
            then length (roster_items stanza) else 1)"
  proof (cases "attr stanza ''type'' = JStr ''error''")
    case True
    then show ?thesis
      using checkScope_out [of "''sendToClient''" _ x]
      by (simp add: stanza_handler_def guard_sendToClient_def Let_def split: prod.splits)
  next
    case False
    show ?thesis
    proof (cases "is_named stanza ''iq''")
      case False
      with \<open>attr stanza ''type'' \<noteq> JStr ''error''\<close> show ?thesis
        by (simp add: stanza_handler_def js_return_def)
    next
      case True
      show ?thesis
      proof (cases "attr stanza ''id'' = JStr ''muc_id'' \<and> attr stanza ''type'' = JStr ''result''")
        case True
        obtain s' r where d: "guard_debug ''got room attendance list'' x = (s', r)"
          by (cases "guard_debug ''got room attendance list'' x")
        with guard_debug_out [of "''got room attendance list''" x]
        have o: "client_out s' = client_out x" by simp
        from True \<open>is_named stanza ''iq''\<close> d o show ?thesis
          by (cases r) (simp_all add: stanza_handler_def comp_defs)
      next
        case False
        with \<open>is_named stanza ''iq''\<close> \<open>attr stanza ''type'' \<noteq> JStr ''error''\<close>
        show ?thesis
          using roster_entries_out [of g _ x]
          by (auto simp: stanza_handler_def roster_items_def js_return_def split: option.splits)
      qed
    qed
  qed
  with listener_sends show ?thesis by blast
qed

text \<open>
  C5, as stated, fails: a roster result with two contacts delivers two messages for the
  one stanza.
\<close>

theorem C5_roster_two_messages:
  "client_out (fst (stanza_handler render_tag alice_guard roster_two live_session))
     = [JObj [(''@type'', JStr ''request-friend''),
              (''actor'', JObj [(''@id'', JStr ''bob@xmpp.host.net''), (''displayName'', JUndefined)]),
              (''target'', alice_actor)],
        JObj [(''@type'', JStr ''request-friend''),
              (''actor'', JObj [(''@id'', JStr ''carol@xmpp.host.net''), (''displayName'', JUndefined)]),
              (''target'', alice_actor)]]"
  by (simp add: stanza_handler_def roster_two_def getChild_def roster_entry_def roster_actor_def
      guard_defs comp_defs live_session_def alice_guard_def local_names)

text \<open>
  C7. The claim: classification never throws, whatever fields the event carries. In the
  code, an IRC event with a string \<open>channel\<close> and no \<open>raw\<close> throws at
  \<open>object.raw.indexOf\<close>; a roster result with a contact of subscription \<open>both\<close> throws
  on the unbound \<open>state\<close>; an attendance result throws at \<open>this.roomAttendance\<close>.
\<close>

theorem C7_classification_throws:
  "listener channel_only_event IRC_new = (IRC_new, Inl (TypeError ''indexOf''))
   \<and> snd (stanza_handler render_tag alice_guard roster_both live_session)
       = Inl (ReferenceError ''state'')
   \<and> snd (stanza_handler render_tag alice_guard attendance_result live_session)
       = Inl (TypeError ''roomAttendance'')"
  by (simp add: listener_def channel_only_event_def get_def raw_has_def comp_defs
      stanza_handler_def roster_both_def attendance_result_def getChild_def roster_entry_def
      guard_defs live_session_def local_names)

lemmas shape_defs = roster_shape_def who_shape_def topic_shape_def rename_shape_def join_shape_def
  message_shape_def motd_shape_def mode_shape_def quit_shape_def part_shape_def

lemma bind_lift_Inr: "js_bind (js_lift (Inr x)) f = f x"
  by (rule ext) (simp add: comp_defs)

lemma lift_if: "js_lift (if c then r else Inr x) = (if c then js_lift r else js_return x)"
  by (rule ext) (simp add: comp_defs)

lemma listener_first_match: "listener object = first_match code_order object"
  by (simp add: listener_def code_order_def shape_defs ignore_def bind_lift_Inr lift_if
      split del: if_split cong del: if_weak_cong)

text \<open>
  C6, as amended. The listener is first-match classification over the shapes in the
  order roster snapshot, full-who reply (ignored), topic change, identity rename, join,
  direct/room message, MOTD (ignored), mode change (ignored), disconnect/quit, part,
  then silent drop. So an event that has none of the first six shapes and has the MOTD
  or the mode shape is dropped without a message, whether or not it also has the quit
  or the part shape: the two known-ignorable shapes are tested before quit and part.
\<close>

theorem C6_listener_precedence:
  "listener object = first_match code_order object
   \<and> (roster_shape object = Inr False \<and> who_shape object = Inr False
      \<and> topic_shape object = Inr False \<and> rename_shape object = Inr False
      \<and> join_shape object = Inr False \<and> message_shape object = Inr False
      \<and> (motd_shape object = Inr True \<or> mode_shape object = Inr True)
      \<longrightarrow> listener object s = (s, Inr ()))"
proof -
  have "listener object s = (s, Inr ())"
    if "roster_shape object = Inr False" "who_shape object = Inr False"
      "topic_shape object = Inr False" "rename_shape object = Inr False"
      "join_shape object = Inr False" "message_shape object = Inr False"
      "motd_shape object = Inr True \<or> mode_shape object = Inr True"
  proof -
    from that(7) show ?thesis
    proof
      assume "motd_shape object = Inr True"
      with that(1-6) show ?thesis
        by (simp add: listener_first_match code_order_def ignore_def comp_defs)
    next
      assume m: "mode_shape object = Inr True"
      obtain b where "motd_shape object = Inr b" by (simp add: motd_shape_def)
      with m that(1-6) show ?thesis
        by (simp add: listener_first_match code_order_def ignore_def comp_defs)
    qed
  qed
  with listener_first_match show ?thesis by blast
qed

lemma mode_event_shapes:
  "roster_shape mode_event = Inr False" "who_shape mode_event = Inr False"
  "topic_shape mode_event = Inr False" "rename_shape mode_event = Inr False"
  "join_shape mode_event = Inr False" "message_shape mode_event = Inr False"
  "mode_shape mode_event = Inr True" "quit_shape mode_event = Inr True"
  "motd_shape mode_event = Inr False"
  by (simp_all add: shape_defs mode_event_def get_def)

theorem C6_listener_precedence_witness:
  "roster_shape mode_event = Inr False \<and> who_shape mode_event = Inr False
   \<and> topic_shape mode_event = Inr False \<and> rename_shape mode_event = Inr False
   \<and> join_shape mode_event = Inr False \<and> message_shape mode_event = Inr False
   \<and> mode_shape mode_event = Inr True \<and> quit_shape mode_event = Inr True
   \<and> listener mode_event IRC_new = first_match code_order mode_event IRC_new
   \<and> listener mode_event IRC_new = (IRC_new, Inr ())"
proof -
  note c = C6_listener_precedence [of mode_event IRC_new]
  from c have "listener mode_event = first_match code_order mode_event" by blast
  then have a: "listener mode_event IRC_new = first_match code_order mode_event IRC_new"
    by simp
  from c mode_event_shapes have b: "listener mode_event IRC_new = (IRC_new, Inr ())"
    by blast
  from a b mode_event_shapes show ?thesis by blast
qed

text \<open>
  C6, as stated, fails: a user-mode notification has the quit shape (a nickname, no
  target) and the mode shape. In the order of section 4.3 it would be classified as a
  quit and reported as a \<open>leave\<close>; the code drops it as a mode change.
\<close>

theorem C6_spec_order_differs:
  "listener mode_event IRC_new = (IRC_new, Inr ())
   \<and> classify_spec_order mode_event IRC_new =
       (IRC_new\<lparr>calls :=
          [SessionDebug ''received quit: bob -> undefined'',
           SessionSend (as_message ''leave'' (JStr ''bob'') (JStr []) [(''text'', JStr ''user has quit'')])]\<rparr>,
        Inr ())"
proof -
  have a: "listener mode_event IRC_new = (IRC_new, Inr ())"
    by (simp add: listener_first_match code_order_def mode_event_shapes ignore_def comp_defs)
  have q: "on_quit mode_event IRC_new =
       (IRC_new\<lparr>calls :=
          [SessionDebug ''received quit: bob -> undefined'',
           SessionSend (as_message ''leave'' (JStr ''bob'') (JStr []) [(''text'', JStr ''user has quit'')])]\<rparr>,
        Inr ())"
    by (simp add: on_quit_def mode_event_def get_def comp_defs call_defs IRC_new_def)
  have b: "classify_spec_order mode_event IRC_new = on_quit mode_event IRC_new"
    by (simp add: classify_spec_order_def spec_order_def mode_event_shapes comp_defs)
  from a b q show ?thesis by simp
qed


text \<open>
  C8. The claim: a rename stores the updated credentials under the new identity's key
  and moves the pool entry to that key. In the code, renaming \<open>alice\<close> to \<open>alice2\<close>
  issues the \<open>NICK\<close> command and completes with success, but stores the credentials
  under the bare nick \<open>alice2\<close>, moves the pool entry to \<open>alice2@irc.host.net\<close>, and
  leaves the old \<open>actor.id\<close> in the stored credentials; \<open>_getClient\<close> reads the store
  and the pool by \<open>job.actor.id\<close>, which is neither key.
\<close>

theorem C8_rename_keys_disagree:
  "raw_commands (new_calls (update rename_job pooled_env) IRC_new) = [(7, [''NICK'', ''alice2''])]
   \<and> stored_credentials (new_calls (update rename_job pooled_env) IRC_new)
     = [(''credentials'', ''alice2'', renamed_credentials rename_job alice_client)]
   \<and> pool_moves (new_calls (update rename_job pooled_env) IRC_new)
     = [(''irc://alice@irc.host.net'', alice_credentials, ''alice2@irc.host.net'',
         renamed_credentials rename_job alice_client)]
   \<and> done_args (new_calls (update rename_job pooled_env) IRC_new) = [None]
   \<and> renamed_credentials rename_job alice_client
     = \<lparr>cred_actor_id = ''irc://alice@irc.host.net'', cred_actor_displayName = Some ''alice2'',
        cred_actor_name = Some ''alice2'', cred_nick = ''alice2'', cred_server = ''irc.host.net'',
        cred_password = None, cred_port = None, cred_secure = None\<rparr>
   \<and> ''alice2'' \<noteq> ''alice2@irc.host.net''
   \<and> ''alice2'' \<noteq> actor_id rename_job
   \<and> ''alice2@irc.host.net'' \<noteq> actor_id rename_job"
  by (simp add: new_calls_def update_def update_resolved_def getClient_def pooled_env_def
      comp_defs call_defs Let_def rename_job_def room_job_def alice_client_def
      alice_credentials_def renamed_credentials_def IRC_new_def)

end
